theory Spec2Isabelle
  imports Complex_Main "HOL-Library.Word"
begin

unbundle bit_operations_syntax

section \<open>The BLE sensor screen of NeuraLoadAPP\<close>

text \<open>
  The development embeds the protocol logic of the React Native screen that talks to the
  NeuraLoad peripheral: the scan callback, the connect sequence, the three notification
  callbacks (IMU, Laser, Weight), the identity read and the disconnect handler.  The
  four-channel screen is the primary source; the older two-channel screen
  \<^verbatim>\<open>BleTest.tsx\<close> has the same scan, connect and parse code and is covered where it
  differs.

  Component state (the \<^verbatim>\<open>useState\<close> cells) is a record that every handler takes and
  returns.  Calls made on collaborators (the BLE manager, the permission dialog, the
  timer, the console) are appended to the field \<open>calls\<close>, in program order.  An
  \<^verbatim>\<open>await\<close> splits a function into the part before it and one continuation per
  outcome of the awaited promise, so that other handlers can run in between.  An
  exception that leaves a handler is the value \<open>Inl\<close>.
\<close>

subsection \<open>JavaScript numbers read from a buffer\<close>

type_synonym byte = "8 word"

datatype js_error = RangeError | BleError

text \<open>
  A JavaScript number as far as a single-precision read can produce it: not-a-number, an
  infinity with its sign, or a sign and a non-negative magnitude.  The literal \<^verbatim>\<open>0\<close> is
  \<open>Finite False 0\<close>; minus zero is \<open>Finite True 0\<close>.
\<close>

datatype number = NaN | Infinity bool | Finite bool rat

definition js_zero :: number where
  "js_zero = Finite False 0"

text \<open>The operator \<^verbatim>\<open>!==\<close> on numbers: not-a-number differs from everything, the two
  zeros are equal.\<close>

fun strict_neq :: "number \<Rightarrow> number \<Rightarrow> bool" where
  "strict_neq NaN _ = True"
| "strict_neq _ NaN = True"
| "strict_neq (Infinity s) (Infinity t) = (s \<noteq> t)"
| "strict_neq (Finite s m) (Finite t n) = (m \<noteq> n \<or> (m \<noteq> 0 \<and> s \<noteq> t))"
| "strict_neq _ _ = True"

text \<open>
  Modelled from the spec: \<^verbatim>\<open>Buffer.readFloatLE\<close> belongs to the imported package
  \<^verbatim>\<open>buffer\<close>, which is not part of the sources.  The spec fixes the format: numeric fields are
  IEEE-754 single precision, little-endian.  The four bytes are assembled with the byte
  at the lowest offset least significant; bit 31 is the sign, bits 30 to 23 the biased
  exponent, bits 22 to 0 the fraction.
\<close>

definition word_of_bytes_le :: "byte \<Rightarrow> byte \<Rightarrow> byte \<Rightarrow> byte \<Rightarrow> 32 word" where
  "word_of_bytes_le b0 b1 b2 b3 =
     ucast b0 OR push_bit 8 (ucast b1) OR push_bit 16 (ucast b2) OR push_bit 24 (ucast b3)"

definition f32_sign :: "32 word \<Rightarrow> bool" where
  "f32_sign w = (drop_bit 31 w = 1)"

definition f32_exponent :: "32 word \<Rightarrow> nat" where
  "f32_exponent w = unat (drop_bit 23 w AND 0xFF)"

definition f32_fraction :: "32 word \<Rightarrow> nat" where
  "f32_fraction w = unat (w AND 0x7FFFFF)"

definition pow2 :: "int \<Rightarrow> rat" where
  "pow2 k = (if 0 \<le> k then 2 ^ nat k else 1 / 2 ^ nat (- k))"

definition f32_value :: "32 word \<Rightarrow> number" where
  "f32_value w =
     (let s = f32_sign w; e = f32_exponent w; m = f32_fraction w
      in if e = 255 then (if m = 0 then Infinity s else NaN)
         else if e = 0 then Finite s (of_nat m * pow2 (- 149))
         else Finite s (of_nat (m + 8388608) * pow2 (int e - 150)))"

text \<open>
  Modelled from the spec: the body of \<^verbatim>\<open>readFloatLE\<close> is in the package \<^verbatim>\<open>buffer\<close>, not in
  the sources; the spec asks for a single-precision little-endian read.  The package
  checks the offset first and raises \<^verbatim>\<open>RangeError\<close> unless the four bytes at the offset
  lie inside the buffer.
\<close>

definition readFloatLE :: "byte list \<Rightarrow> nat \<Rightarrow> js_error + number" where
  "readFloatLE buffer offset =
     (if offset + 4 \<le> length buffer
      then Inr (f32_value (word_of_bytes_le (buffer ! offset) (buffer ! (offset + 1))
                             (buffer ! (offset + 2)) (buffer ! (offset + 3))))
      else Inl RangeError)"

subsection \<open>The float parse loop\<close>

text \<open>
  \<^verbatim>\<open>for (let i = 0; i < buffer.length; i += 4) floats.push(buffer.readFloatLE(i))\<close>,
  the body of the IMU and the Laser callback of both screens.  The arguments are the
  buffer, the loop variable and the array built so far.
\<close>

function parse_floats_from :: "byte list \<Rightarrow> nat \<Rightarrow> number list \<Rightarrow> js_error + number list" where
  "parse_floats_from buffer i floats =
     (if i < length buffer
      then (case readFloatLE buffer i of
              Inl e \<Rightarrow> Inl e
            | Inr x \<Rightarrow> parse_floats_from buffer (i + 4) (floats @ [x]))
      else Inr floats)"
  by pat_completeness auto
termination
  by (relation "measure (\<lambda>(buffer, i, floats). length buffer - i)") auto

declare parse_floats_from.simps [simp del]

definition parse_floats :: "byte list \<Rightarrow> js_error + number list" where
  "parse_floats buffer = parse_floats_from buffer 0 []"

text \<open>The float that the loop reads at index \<open>k\<close>, from bytes \<open>4k\<close> to \<open>4k + 3\<close>.\<close>

definition float_at :: "byte list \<Rightarrow> nat \<Rightarrow> number" where
  "float_at buffer k =
     f32_value (word_of_bytes_le (buffer ! (4 * k)) (buffer ! (4 * k + 1))
                  (buffer ! (4 * k + 2)) (buffer ! (4 * k + 3)))"

subsection \<open>Devices, characteristics and the component state\<close>

record device =
  device_id :: string
  device_name :: "string option"

text \<open>A characteristic as a callback receives it: its value is base-64 text or absent.\<close>

record characteristic =
  char_value :: "string option"

definition SENSOR_SERVICE_UUID :: string where
  "SENSOR_SERVICE_UUID = ''00000001-736c-4645-b520-7127aadf8c47''"

definition IMU_CHARACTERISTIC_UUID :: string where
  "IMU_CHARACTERISTIC_UUID = ''00000002-736c-4645-b520-7127aadf8c47''"

definition LASER_CHARACTERISTIC_UUID :: string where
  "LASER_CHARACTERISTIC_UUID = ''00000003-736c-4645-b520-7127aadf8c47''"

definition WEIGHT_CHARACTERISTIC_UUID :: string where
  "WEIGHT_CHARACTERISTIC_UUID = ''00000004-736c-4645-b520-7127aadf8c47''"

definition DEVICE_ID_CHARACTERISTIC_UUID :: string where
  "DEVICE_ID_CHARACTERISTIC_UUID = ''00000005-736c-4645-b520-7127aadf8c47''"

definition DEVICE_LOCAL_NAME :: string where
  "DEVICE_LOCAL_NAME = ''NeuraLoad''"

text \<open>
  Calls on collaborators.  \<open>Monitor\<close> and \<open>ReadCharacteristic\<close> carry the device identity,
  the service and the characteristic; \<open>ConsoleLog\<close> carries the fixed message of an error
  branch (the dumps of a received payload in the IMU and Laser callbacks change nothing
  and are left out).
\<close>

datatype call =
    StopDeviceScan
  | RequestPermissions
  | StartDeviceScan
  | SetTimeout nat
  | ConnectToDevice string
  | DiscoverAllServicesAndCharacteristics string
  | Monitor string string string
  | ReadCharacteristic string string string
  | CancelDeviceConnection string
  | ConsoleLog string

record state =
  allDevices :: "device list"
  connectedDevice :: "device option"
  isScanning :: bool
  imuData :: "number list"
  laserData :: "number list"
  weightData :: number
  deviceID :: string
  calls :: "call list"

text \<open>The initial values of the \<^verbatim>\<open>useState\<close> cells; no call has been made.\<close>

definition initial_state :: state where
  "initial_state =
     \<lparr>allDevices = [], connectedDevice = None, isScanning = False, imuData = [],
      laserData = [], weightData = js_zero, deviceID = ''N/A'', calls = []\<rparr>"

definition log_call :: "call \<Rightarrow> state \<Rightarrow> state" where
  "log_call c st = st\<lparr>calls := calls st @ [c]\<rparr>"

text \<open>The state the component holds after a handler ran: a handler that threw has set
  nothing.\<close>

definition after :: "state \<Rightarrow> js_error + state \<Rightarrow> state" where
  "after st r = (case r of Inl e \<Rightarrow> st | Inr st' \<Rightarrow> st')"

subsection \<open>Permissions\<close>

datatype os = Android | OtherOS

datatype permission = BLUETOOTH_SCAN | BLUETOOTH_CONNECT | ACCESS_FINE_LOCATION

datatype permission_status = GRANTED | DENIED | NEVER_ASK_AGAIN

text \<open>What the platform answers: the operating system, the API level if known, and the
  status each permission request resolves to.\<close>

record platform =
  platform_os :: os
  platformApiLevel :: "int option"
  request :: "permission \<Rightarrow> permission_status"

definition requestAndroid12Permissions :: "platform \<Rightarrow> bool" where
  "requestAndroid12Permissions p =
     (let bluetoothScanPermission = request p BLUETOOTH_SCAN;
          bluetoothConnectPermission = request p BLUETOOTH_CONNECT;
          fineLocationPermission = request p ACCESS_FINE_LOCATION
      in bluetoothScanPermission = GRANTED \<and> bluetoothConnectPermission = GRANTED \<and>
         fineLocationPermission = GRANTED)"

definition requestPermissions :: "platform \<Rightarrow> bool" where
  "requestPermissions p =
     (if platform_os p = Android
      then (let apiLevel = (case platformApiLevel p of Some l \<Rightarrow> l | None \<Rightarrow> - 1)
            in if apiLevel < 31
               then (let granted = request p ACCESS_FINE_LOCATION in granted = GRANTED)
               else requestAndroid12Permissions p)
      else True)"

subsection \<open>Scanning\<close>

text \<open>
  \<^verbatim>\<open>scanForDevices\<close> up to its \<^verbatim>\<open>await requestPermissions()\<close>, and its continuation
  with the boolean the promise resolved to.
\<close>

definition scanForDevices_begin :: "state \<Rightarrow> state" where
  "scanForDevices_begin st =
     log_call RequestPermissions (log_call StopDeviceScan (st\<lparr>isScanning := True\<rparr>))"

definition scanForDevices_resume :: "bool \<Rightarrow> state \<Rightarrow> state" where
  "scanForDevices_resume hasPermission st =
     (if \<not> hasPermission
      then (log_call (ConsoleLog ''BLE Permissions not granted!'') st)\<lparr>isScanning := False\<rparr>
      else log_call (SetTimeout 10000) (log_call StartDeviceScan (st\<lparr>allDevices := []\<rparr>)))"

definition scanForDevices :: "platform \<Rightarrow> state \<Rightarrow> state" where
  "scanForDevices p st = scanForDevices_resume (requestPermissions p) (scanForDevices_begin st)"

text \<open>The timer callback, ten seconds after the scan started.\<close>

definition scan_timeout :: "state \<Rightarrow> state" where
  "scan_timeout st = (log_call StopDeviceScan st)\<lparr>isScanning := False\<rparr>"

text \<open>\<^verbatim>\<open>Array.prototype.findIndex\<close>: the index of the first element that satisfies the
  predicate, or -1.\<close>

fun findIndex :: "('a \<Rightarrow> bool) \<Rightarrow> 'a list \<Rightarrow> int" where
  "findIndex p [] = - 1"
| "findIndex p (x # xs) =
     (if p x then 0 else (let r = findIndex p xs in if r < 0 then - 1 else r + 1))"

text \<open>The updater passed to \<^verbatim>\<open>setAllDevices\<close> in the scan callback.\<close>

definition add_device :: "device \<Rightarrow> device list \<Rightarrow> device list" where
  "add_device dev prev =
     (let alreadyInList = (findIndex (\<lambda>d. device_id d = device_id dev) prev \<ge> 0)
      in if \<not> alreadyInList then prev @ [dev] else prev)"

text \<open>The same updater as \<^verbatim>\<open>BleTest.tsx\<close> writes it, with \<^verbatim>\<open>idx === -1\<close>.\<close>

definition add_device_BleTest :: "device \<Rightarrow> device list \<Rightarrow> device list" where
  "add_device_BleTest dev prev =
     (let idx = findIndex (\<lambda>d. device_id d = device_id dev) prev
      in if idx = - 1 then prev @ [dev] else prev)"

text \<open>The callback of \<^verbatim>\<open>startDeviceScan\<close>: an error or a scanned device, which may be
  null and whose name may be null.\<close>

definition scan_callback :: "js_error option \<Rightarrow> device option \<Rightarrow> state \<Rightarrow> state" where
  "scan_callback error dev st =
     (case error of
        Some e \<Rightarrow> (log_call (ConsoleLog ''Scan error:'') st)\<lparr>isScanning := False\<rparr>
      | None \<Rightarrow>
          (case dev of
             None \<Rightarrow> st
           | Some d \<Rightarrow>
               if device_name d = Some DEVICE_LOCAL_NAME
               then st\<lparr>allDevices := add_device d (allDevices st)\<rparr>
               else st))"

text \<open>A sequence of scan callbacks, in the order of arrival.\<close>

fun scan_callbacks :: "(js_error option \<times> device option) list \<Rightarrow> state \<Rightarrow> state" where
  "scan_callbacks [] st = st"
| "scan_callbacks ((error, dev) # rest) st = scan_callbacks rest (scan_callback error dev st)"

text \<open>The invariant of the candidate list: identities are pairwise distinct and every
  device advertises the filter name.\<close>

definition scan_inv :: "state \<Rightarrow> bool" where
  "scan_inv st \<longleftrightarrow>
     distinct (map device_id (allDevices st)) \<and>
     (\<forall>d\<in>set (allDevices st). device_name d = Some DEVICE_LOCAL_NAME)"

subsection \<open>Notification callbacks\<close>

text \<open>The test \<^verbatim>\<open>!characteristic?.value\<close>: a null characteristic, a null value and the
  empty string all count as no payload.\<close>

definition payload :: "characteristic option \<Rightarrow> string option" where
  "payload ch =
     (case ch of
        None \<Rightarrow> None
      | Some c \<Rightarrow> (case char_value c of None \<Rightarrow> None | Some v \<Rightarrow> if v = [] then None else Some v))"

text \<open>
  Each callback is split at \<^verbatim>\<open>Buffer.from(characteristic.value, "base64")\<close>: the part on
  the decoded buffer, and the callback itself, which takes the base-64 decoder of the
  package \<^verbatim>\<open>buffer\<close> as its first argument.
\<close>

definition imu_on_buffer :: "byte list \<Rightarrow> state \<Rightarrow> js_error + state" where
  "imu_on_buffer buffer st =
     (case parse_floats buffer of
        Inl e \<Rightarrow> Inl e
      | Inr floats \<Rightarrow> Inr (st\<lparr>imuData := floats\<rparr>))"

definition imu_callback ::
  "(string \<Rightarrow> byte list) \<Rightarrow> js_error option \<Rightarrow> characteristic option \<Rightarrow> state \<Rightarrow> js_error + state" where
  "imu_callback from_base64 error ch st =
     (case error of
        Some e \<Rightarrow> Inr (log_call (ConsoleLog ''IMU Notify Error:'') st)
      | None \<Rightarrow>
          (case payload ch of
             None \<Rightarrow> Inr st
           | Some v \<Rightarrow> imu_on_buffer (from_base64 v) st))"

definition laser_on_buffer :: "byte list \<Rightarrow> state \<Rightarrow> js_error + state" where
  "laser_on_buffer buffer st =
     (case parse_floats buffer of
        Inl e \<Rightarrow> Inl e
      | Inr floats \<Rightarrow> Inr (st\<lparr>laserData := floats\<rparr>))"

definition laser_callback ::
  "(string \<Rightarrow> byte list) \<Rightarrow> js_error option \<Rightarrow> characteristic option \<Rightarrow> state \<Rightarrow> js_error + state" where
  "laser_callback from_base64 error ch st =
     (case error of
        Some e \<Rightarrow> Inr (log_call (ConsoleLog ''Laser Notify Error:'') st)
      | None \<Rightarrow>
          (case payload ch of
             None \<Rightarrow> Inr st
           | Some v \<Rightarrow> laser_on_buffer (from_base64 v) st))"

definition weight_on_buffer :: "byte list \<Rightarrow> state \<Rightarrow> js_error + state" where
  "weight_on_buffer buffer st =
     (if length buffer \<ge> 4
      then (case readFloatLE buffer 0 of
              Inl e \<Rightarrow> Inl e
            | Inr w \<Rightarrow> Inr (st\<lparr>weightData := w\<rparr>))
      else Inr st)"

definition weight_callback ::
  "(string \<Rightarrow> byte list) \<Rightarrow> js_error option \<Rightarrow> characteristic option \<Rightarrow> state \<Rightarrow> js_error + state" where
  "weight_callback from_base64 error ch st =
     (case error of
        Some e \<Rightarrow> Inr (log_call (ConsoleLog ''Weight Notify Error:'') st)
      | None \<Rightarrow>
          (case payload ch of
             None \<Rightarrow> Inr st
           | Some v \<Rightarrow> weight_on_buffer (from_base64 v) st))"

text \<open>\<^verbatim>\<open>startNotifications\<close> registers the three monitors and discards the
  subscriptions they return.\<close>

definition startNotifications :: "device \<Rightarrow> state \<Rightarrow> state" where
  "startNotifications dev st =
     log_call (Monitor (device_id dev) SENSOR_SERVICE_UUID WEIGHT_CHARACTERISTIC_UUID)
       (log_call (Monitor (device_id dev) SENSOR_SERVICE_UUID LASER_CHARACTERISTIC_UUID)
          (log_call (Monitor (device_id dev) SENSOR_SERVICE_UUID IMU_CHARACTERISTIC_UUID) st))"

subsection \<open>The identity read\<close>

definition readDeviceID_begin :: "device \<Rightarrow> state \<Rightarrow> state" where
  "readDeviceID_begin dev st =
     log_call (ReadCharacteristic (device_id dev) SENSOR_SERVICE_UUID DEVICE_ID_CHARACTERISTIC_UUID) st"

text \<open>The continuation after the read resolved; the second argument is
  \<^verbatim>\<open>buffer.toString("utf-8")\<close> of the package \<^verbatim>\<open>buffer\<close>.\<close>

definition readDeviceID_resolved ::
  "(string \<Rightarrow> byte list) \<Rightarrow> (byte list \<Rightarrow> string) \<Rightarrow> characteristic option \<Rightarrow> state \<Rightarrow> state" where
  "readDeviceID_resolved from_base64 to_utf8 ch st =
     (case payload ch of
        None \<Rightarrow> st
      | Some v \<Rightarrow> (let buffer = from_base64 v; idStr = to_utf8 buffer in st\<lparr>deviceID := idStr\<rparr>))"

definition readDeviceID_catch :: "state \<Rightarrow> state" where
  "readDeviceID_catch st = log_call (ConsoleLog ''Read Device ID error:'') st"

subsection \<open>Connecting\<close>

text \<open>
  \<^verbatim>\<open>connectToDevice\<close> has two awaits: the transport connect and the discovery.  The
  first continuation takes the device the connect resolved to (\<^verbatim>\<open>connected\<close> in the
  source), the second also what the peripheral was found to expose (pairs of
  service and characteristic identity); the source never looks at it.
\<close>

definition connectToDevice_begin :: "device \<Rightarrow> state \<Rightarrow> state" where
  "connectToDevice_begin dev st = log_call (ConnectToDevice (device_id dev)) st"

definition connectToDevice_connected :: "device \<Rightarrow> state \<Rightarrow> state" where
  "connectToDevice_connected dev st =
     log_call (DiscoverAllServicesAndCharacteristics (device_id dev))
       (st\<lparr>connectedDevice := Some dev\<rparr>)"

definition connectToDevice_discovered :: "device \<Rightarrow> (string \<times> string) list \<Rightarrow> state \<Rightarrow> state" where
  "connectToDevice_discovered dev found st =
     readDeviceID_begin dev (startNotifications dev (log_call StopDeviceScan st))"

definition connectToDevice_catch :: "state \<Rightarrow> state" where
  "connectToDevice_catch st = log_call (ConsoleLog ''Connection error:'') st"

subsection \<open>Disconnecting\<close>

text \<open>
  \<^verbatim>\<open>disconnectDevice\<close> is a callback that closes over \<^verbatim>\<open>connectedDevice\<close>; the first
  argument is the value it captured.  The button invokes the callback of the current
  render, which captured the current cell; the effect cleanup invokes the callback of the
  render it belongs to.
\<close>

definition disconnectDevice_with :: "device option \<Rightarrow> state \<Rightarrow> state" where
  "disconnectDevice_with captured st =
     (case captured of
        None \<Rightarrow> st
      | Some d \<Rightarrow>
          (log_call (CancelDeviceConnection (device_id d)) st)
            \<lparr>connectedDevice := None, imuData := [], laserData := [],
             weightData := js_zero, deviceID := ''N/A''\<rparr>)"

definition disconnectDevice :: "state \<Rightarrow> state" where
  "disconnectDevice st = disconnectDevice_with (connectedDevice st) st"

text \<open>The handler given to \<^verbatim>\<open>.catch\<close> on the promise of \<^verbatim>\<open>cancelDeviceConnection\<close>.\<close>

definition disconnectDevice_catch :: "state \<Rightarrow> state" where
  "disconnectDevice_catch st = log_call (ConsoleLog ''Disconnection error:'') st"

text \<open>\<^verbatim>\<open>BleTest.tsx\<close> has no weight and no identity cell; its handler resets the two
  arrays only.\<close>

definition disconnectDevice_BleTest_with :: "device option \<Rightarrow> state \<Rightarrow> state" where
  "disconnectDevice_BleTest_with captured st =
     (case captured of
        None \<Rightarrow> st
      | Some d \<Rightarrow>
          (log_call (CancelDeviceConnection (device_id d)) st)
            \<lparr>connectedDevice := None, imuData := [], laserData := []\<rparr>)"

subsection \<open>What the screen shows\<close>

text \<open>\<^verbatim>\<open>Array.prototype.slice(start, end)\<close> for indices that are not negative.\<close>

definition slice :: "nat \<Rightarrow> nat \<Rightarrow> 'a list \<Rightarrow> 'a list" where
  "slice start stop xs = take (stop - start) (drop start xs)"

function imu_matrix_from :: "number list \<Rightarrow> nat \<Rightarrow> number list list \<Rightarrow> number list list" where
  "imu_matrix_from imu i matrix =
     (if i < length imu
      then imu_matrix_from imu (i + 9) (matrix @ [slice i (i + 9) imu])
      else matrix)"
  by pat_completeness auto
termination
  by (relation "measure (\<lambda>(imu, i, matrix). length imu - i)") auto

declare imu_matrix_from.simps [simp del]

definition getImuMatrix :: "state \<Rightarrow> number list list" where
  "getImuMatrix st = imu_matrix_from (imuData st) 0 []"

text \<open>
  The screen is one conditional on \<^verbatim>\<open>connectedDevice\<close>: with a device connected it shows
  the sensor blocks, otherwise the list of scanned devices.  Each block below is the
  expression inside the connected branch; the functions \<open>render_...\<close> are what the screen
  shows of that block, \<open>None\<close> while no device is connected.
\<close>

datatype imu_view = ImuSensors "number list list" | NoImuData

definition imu_block :: "state \<Rightarrow> imu_view" where
  "imu_block st = (if length (imuData st) = 36 then ImuSensors (getImuMatrix st) else NoImuData)"

definition render_imu :: "state \<Rightarrow> imu_view option" where
  "render_imu st = (case connectedDevice st of None \<Rightarrow> None | Some d \<Rightarrow> Some (imu_block st))"

datatype weight_view = WeightKg number | NoWeightData

definition weight_block :: "state \<Rightarrow> weight_view" where
  "weight_block st =
     (if strict_neq (weightData st) js_zero then WeightKg (weightData st) else NoWeightData)"

definition render_weight :: "state \<Rightarrow> weight_view option" where
  "render_weight st =
     (case connectedDevice st of None \<Rightarrow> None | Some d \<Rightarrow> Some (weight_block st))"

text \<open>\<^verbatim>\<open>BleTest.tsx\<close> shows the IMU floats joined in one line as soon as there is at least
  one, again only while a device is connected.\<close>

datatype imu_view_BleTest = ImuJoined "number list" | NoImuDataYet

definition imu_block_BleTest :: "state \<Rightarrow> imu_view_BleTest" where
  "imu_block_BleTest st = (if length (imuData st) > 0 then ImuJoined (imuData st) else NoImuDataYet)"

definition render_imu_BleTest :: "state \<Rightarrow> imu_view_BleTest option" where
  "render_imu_BleTest st =
     (case connectedDevice st of None \<Rightarrow> None | Some d \<Rightarrow> Some (imu_block_BleTest st))"

text \<open>The Sensor Store is empty: every slot holds its initial value.\<close>

definition store_empty :: "state \<Rightarrow> bool" where
  "store_empty st \<longleftrightarrow>
     imuData st = [] \<and> laserData st = [] \<and> weightData st = js_zero \<and> deviceID st = ''N/A''"

subsection \<open>Runs used as examples\<close>

text \<open>Two peripherals that advertise the filter name, and the frame of 144 bytes whose
  first float is 1.0.\<close>

definition device_A :: device where
  "device_A = \<lparr>device_id = ''AA:AA:AA:AA:AA:AA'', device_name = Some ''NeuraLoad''\<rparr>"

definition device_B :: device where
  "device_B = \<lparr>device_id = ''BB:BB:BB:BB:BB:BB'', device_name = Some ''NeuraLoad''\<rparr>"

definition imu_frame_one :: "byte list" where
  "imu_frame_one = [0, 0, 0x80, 0x3F] @ replicate 140 0"

definition full_gatt :: "(string \<times> string) list" where
  "full_gatt =
     [(SENSOR_SERVICE_UUID, IMU_CHARACTERISTIC_UUID),
      (SENSOR_SERVICE_UUID, LASER_CHARACTERISTIC_UUID),
      (SENSOR_SERVICE_UUID, WEIGHT_CHARACTERISTIC_UUID),
      (SENSOR_SERVICE_UUID, DEVICE_ID_CHARACTERISTIC_UUID)]"

text \<open>Device A is chosen, connects and is discovered with all four characteristics.\<close>

definition ready_A :: state where
  "ready_A =
     connectToDevice_discovered device_A full_gatt
       (connectToDevice_connected device_A (connectToDevice_begin device_A initial_state))"

text \<open>The user disconnects; an IMU notification that was already on its way is delivered
  afterwards.\<close>

definition late_notification :: state where
  "late_notification =
     after (disconnectDevice ready_A) (imu_on_buffer imu_frame_one (disconnectDevice ready_A))"

text \<open>The same with a weight notification of 1.0.\<close>

definition late_weight :: state where
  "late_weight =
     after (disconnectDevice ready_A)
       (weight_on_buffer [0, 0, 0x80, 0x3F] (disconnectDevice ready_A))"

text \<open>
  The list is still shown while no device is connected, so A and B are both chosen.  A
  connects and is discovered, the user disconnects, and then the connect of B completes.
\<close>

definition disconnected_with_B_pending :: state where
  "disconnected_with_B_pending =
     disconnectDevice
       (connectToDevice_discovered device_A full_gatt
          (connectToDevice_connected device_A
             (connectToDevice_begin device_B (connectToDevice_begin device_A initial_state))))"

definition stale_completion :: state where
  "stale_completion = connectToDevice_connected device_B disconnected_with_B_pending"

definition after_stale_completion :: state where
  "after_stale_completion =
     after (connectToDevice_discovered device_B full_gatt stale_completion)
       (imu_on_buffer imu_frame_one (connectToDevice_discovered device_B full_gatt stale_completion))"

text \<open>Device A connects, and discovery resolves on a peripheral that exposes nothing of
  the sensor service.\<close>

definition discovered_nothing :: state where
  "discovered_nothing =
     connectToDevice_discovered device_A []
       (connectToDevice_connected device_A (connectToDevice_begin device_A initial_state))"

section \<open>Properties\<close>

subsection \<open>The parse loop on aligned and unaligned buffers\<close>

lemma ready_A_connected: "connectedDevice ready_A = Some device_A"
  by (simp add: ready_A_def connectToDevice_discovered_def connectToDevice_connected_def
      startNotifications_def readDeviceID_begin_def log_call_def)

lemma parse_floats_from_aligned:
  "length buffer mod 4 = 0 \<Longrightarrow> i mod 4 = 0 \<Longrightarrow> i \<le> length buffer \<Longrightarrow>
   parse_floats_from buffer i floats =
     Inr (floats @ map (float_at buffer) [i div 4 ..< length buffer div 4])"
proof (induction buffer i floats rule: parse_floats_from.induct)
  case (1 buffer i floats)
  show ?case
  proof (cases "i < length buffer")
    case False
    with 1(4) have "i = length buffer" by simp
    then show ?thesis by (simp add: parse_floats_from.simps)
  next
    case True
    from True 1(2,3) have le: "i + 4 \<le> length buffer" by presburger
    have i4: "4 * (i div 4) = i" using 1(3) by presburger
    have rd: "readFloatLE buffer i = Inr (float_at buffer (i div 4))"
      using le by (simp add: readFloatLE_def float_at_def i4)
    have "parse_floats_from buffer (i + 4) (floats @ [float_at buffer (i div 4)]) =
      Inr ((floats @ [float_at buffer (i div 4)]) @ map (float_at buffer) [(i + 4) div 4 ..< length buffer div 4])"
      using 1(1)[OF True rd 1(2) _ le] 1(3) by simp
    moreover have "[i div 4 ..< length buffer div 4] = (i div 4) # [(i + 4) div 4 ..< length buffer div 4]"
      using True le 1(2,3) by (simp add: upt_conv_Cons)
    ultimately show ?thesis
      using True rd by (subst parse_floats_from.simps) simp
  qed
qed

lemma parse_floats_from_unaligned:
  "length buffer mod 4 \<noteq> 0 \<Longrightarrow> i mod 4 = 0 \<Longrightarrow> i \<le> length buffer \<Longrightarrow>
   parse_floats_from buffer i floats = Inl RangeError"
proof (induction buffer i floats rule: parse_floats_from.induct)
  case (1 buffer i floats)
  from 1(2,3,4) have lt: "i < length buffer" by (cases "i = length buffer") auto
  show ?case
  proof (cases "i + 4 \<le> length buffer")
    case False
    then show ?thesis using lt
      by (subst parse_floats_from.simps) (simp add: readFloatLE_def)
  next
    case True
    then obtain x where rd: "readFloatLE buffer i = Inr x"
      by (simp add: readFloatLE_def)
    have "parse_floats_from buffer (i + 4) (floats @ [x]) = Inl RangeError"
      using 1(1)[OF lt rd 1(2) _ True] 1(3) by simp
    then show ?thesis using lt rd
      by (subst parse_floats_from.simps) simp
  qed
qed

lemma parse_floats_aligned:
  "length buffer mod 4 = 0 \<Longrightarrow>
   parse_floats buffer = Inr (map (float_at buffer) [0 ..< length buffer div 4])"
  using parse_floats_from_aligned [of buffer 0 "[]"] by (simp add: parse_floats_def)

lemma parse_floats_unaligned:
  "length buffer mod 4 \<noteq> 0 \<Longrightarrow> parse_floats buffer = Inl RangeError"
  using parse_floats_from_unaligned [of buffer 0 "[]"] by (simp add: parse_floats_def)

lemmas f32_defs = f32_value_def word_of_bytes_le_def f32_sign_def f32_exponent_def
  f32_fraction_def pow2_def

lemma f32_one: "f32_value (word_of_bytes_le 0 0 0x80 0x3F) = Finite False 1"
  by (simp add: f32_defs)

lemma f32_zero: "f32_value (word_of_bytes_le 0 0 0 0) = js_zero"
  by (simp add: f32_defs js_zero_def)

text \<open>
  Claim C9.  The IMU and the Laser loop read a four-byte little-endian float at every
  offset 0, 4, 8, ... below the buffer length.  When the length is a multiple of 4, every
  such read lies inside the buffer and the loop returns length/4 floats, the float at
  index \<open>k\<close> being the one at bytes \<open>4k\<close> to \<open>4k + 3\<close>.  When the length is not a multiple
  of 4, the last offset \<open>4 * (length div 4)\<close> is below the length but its four bytes
  reach past the end: that read raises \<^verbatim>\<open>RangeError\<close>, and so do the loop and both
  callbacks.
\<close>

theorem parse_loop_bounds:
  "(length buffer mod 4 = 0 \<longrightarrow>
      parse_floats buffer = Inr (map (float_at buffer) [0 ..< length buffer div 4]) \<and>
      length (map (float_at buffer) [0 ..< length buffer div 4]) = length buffer div 4 \<and>
      (\<forall>i. i mod 4 = 0 \<and> i < length buffer \<longrightarrow>
           i + 4 \<le> length buffer \<and> readFloatLE buffer i = Inr (float_at buffer (i div 4))) \<and>
      imu_on_buffer buffer st =
        Inr (st\<lparr>imuData := map (float_at buffer) [0 ..< length buffer div 4]\<rparr>) \<and>
      laser_on_buffer buffer st =
        Inr (st\<lparr>laserData := map (float_at buffer) [0 ..< length buffer div 4]\<rparr>)) \<and>
   (length buffer mod 4 \<noteq> 0 \<longrightarrow>
      4 * (length buffer div 4) < length buffer \<and>
      length buffer < 4 * (length buffer div 4) + 4 \<and>
      readFloatLE buffer (4 * (length buffer div 4)) = Inl RangeError \<and>
      parse_floats buffer = Inl RangeError \<and>
      imu_on_buffer buffer st = Inl RangeError \<and>
      laser_on_buffer buffer st = Inl RangeError)"
proof (intro conjI impI)
  assume a: "length buffer mod 4 = 0"
  show "parse_floats buffer = Inr (map (float_at buffer) [0 ..< length buffer div 4])"
    using a by (rule parse_floats_aligned)
  then show "imu_on_buffer buffer st =
        Inr (st\<lparr>imuData := map (float_at buffer) [0 ..< length buffer div 4]\<rparr>)"
    and "laser_on_buffer buffer st =
        Inr (st\<lparr>laserData := map (float_at buffer) [0 ..< length buffer div 4]\<rparr>)"
    by (simp_all add: imu_on_buffer_def laser_on_buffer_def)
  show "length (map (float_at buffer) [0 ..< length buffer div 4]) = length buffer div 4"
    by simp
  show "\<forall>i. i mod 4 = 0 \<and> i < length buffer \<longrightarrow>
           i + 4 \<le> length buffer \<and> readFloatLE buffer i = Inr (float_at buffer (i div 4))"
  proof (intro allI impI)
    fix i assume b: "i mod 4 = 0 \<and> i < length buffer"
    with a have le: "i + 4 \<le> length buffer" by presburger
    have i4: "4 * (i div 4) = i" using b by presburger
    show "i + 4 \<le> length buffer \<and> readFloatLE buffer i = Inr (float_at buffer (i div 4))"
      using le by (simp add: readFloatLE_def float_at_def i4)
  qed
next
  assume a: "length buffer mod 4 \<noteq> 0"
  show "4 * (length buffer div 4) < length buffer" using a by presburger
  show "length buffer < 4 * (length buffer div 4) + 4" by presburger
  then show "readFloatLE buffer (4 * (length buffer div 4)) = Inl RangeError"
    by (simp add: readFloatLE_def)
  show p: "parse_floats buffer = Inl RangeError" using a by (rule parse_floats_unaligned)
  show "imu_on_buffer buffer st = Inl RangeError" by (simp add: imu_on_buffer_def p)
  show "laser_on_buffer buffer st = Inl RangeError" by (simp add: laser_on_buffer_def p)
qed

theorem parse_loop_bounds_witness:
  "parse_floats [0, 0, 0x80, 0x3F, 0, 0, 0, 0] = Inr [Finite False 1, js_zero] \<and>
   parse_floats [0, 0, 0x80, 0x3F, 0, 0, 0] = Inl RangeError \<and>
   readFloatLE [0, 0, 0x80, 0x3F, 0, 0, 0] 4 = Inl RangeError"
  using parse_loop_bounds [of "[0, 0, 0x80, 0x3F, 0, 0, 0, 0]" initial_state]
    parse_loop_bounds [of "[0, 0, 0x80, 0x3F, 0, 0, 0]" initial_state]
  by (simp add: float_at_def f32_one f32_zero upt_rec)

subsection \<open>IMU frames\<close>

lemma imu_matrix_36:
  "length imu = 36 \<Longrightarrow>
   imu_matrix_from imu 0 [] = [slice 0 9 imu, slice 9 18 imu, slice 18 27 imu, slice 27 36 imu]"
  by (simp add: imu_matrix_from.simps)

lemma float_at_example:
  "map (float_at ([0, 0, 0x80, 0x3F] @ replicate 140 0)) [0 ..< 36] =
     Finite False 1 # replicate 35 js_zero"
proof (rule nth_equalityI)
  show "length (map (float_at ([0, 0, 0x80, 0x3F] @ replicate 140 0)) [0 ..< 36]) =
    length (Finite False 1 # replicate 35 js_zero)" by simp
next
  fix k assume "k < length (map (float_at ([0, 0, 0x80, 0x3F] @ replicate 140 0)) [0 ..< 36])"
  then have k: "k < 36" by simp
  show "map (float_at ([0, 0, 0x80, 0x3F] @ replicate 140 0)) [0 ..< 36] ! k =
    (Finite False 1 # replicate 35 js_zero) ! k"
  proof (cases k)
    case 0
    then show ?thesis by (simp add: float_at_def f32_one)
  next
    case (Suc j)
    with k have j: "j < 35" by simp
    have "float_at ([0, 0, 0x80, 0x3F] @ replicate 140 0) (Suc j) = js_zero"
      using j by (simp add: float_at_def f32_zero nth_append)
    then show ?thesis using Suc k j by simp
  qed
qed

text \<open>
  Claim C2.  For every buffer of 144 bytes the IMU callback reads 36 single-precision
  little-endian floats, the float at index \<open>k\<close> from bytes \<open>4k\<close> to \<open>4k + 3\<close>, stores them
  in buffer order, and \<^verbatim>\<open>getImuMatrix\<close> groups them into four consecutive sub-readings of
  nine floats, which is what the IMU block shows, on the screen while a device is
  connected.  For the buffer that starts with
  \<^verbatim>\<open>00 00 80 3F\<close> and continues with 140 zero bytes, sub-reading 0 is 1.0 followed by eight
  zeros and sub-readings 1 to 3 are all zero.
\<close>

theorem imu_frame_of_144_bytes:
  "(length buffer = 144 \<longrightarrow>
      (\<exists>floats. parse_floats buffer = Inr floats \<and> length floats = 36 \<and>
         (\<forall>k<36. floats ! k = float_at buffer k) \<and>
         imu_on_buffer buffer st = Inr (st\<lparr>imuData := floats\<rparr>) \<and>
         imu_block (st\<lparr>imuData := floats\<rparr>) = ImuSensors (getImuMatrix (st\<lparr>imuData := floats\<rparr>)) \<and>
         (connectedDevice st \<noteq> None \<longrightarrow>
            render_imu (st\<lparr>imuData := floats\<rparr>) =
              Some (ImuSensors (getImuMatrix (st\<lparr>imuData := floats\<rparr>)))) \<and>
         getImuMatrix (st\<lparr>imuData := floats\<rparr>) =
           [slice 0 9 floats, slice 9 18 floats, slice 18 27 floats, slice 27 36 floats] \<and>
         getImuMatrix (st\<lparr>imuData := floats\<rparr>) =
           [map (float_at buffer) [0 ..< 9], map (float_at buffer) [9 ..< 18],
            map (float_at buffer) [18 ..< 27], map (float_at buffer) [27 ..< 36]])) \<and>
   getImuMatrix (after st (imu_on_buffer ([0, 0, 0x80, 0x3F] @ replicate 140 0) st)) =
     [Finite False 1 # replicate 8 js_zero, replicate 9 js_zero, replicate 9 js_zero,
      replicate 9 js_zero]"
proof (intro conjI impI)
  assume len: "length buffer = 144"
  define floats where "floats = map (float_at buffer) [0 ..< 36]"
  have p: "parse_floats buffer = Inr floats"
    using parse_floats_aligned [of buffer] len by (simp add: floats_def)
  have l: "length floats = 36" by (simp add: floats_def)
  have n: "\<forall>k<36. floats ! k = float_at buffer k" by (simp add: floats_def)
  have i: "imu_on_buffer buffer st = Inr (st\<lparr>imuData := floats\<rparr>)"
    by (simp add: imu_on_buffer_def p)
  have m: "getImuMatrix (st\<lparr>imuData := floats\<rparr>) =
           [slice 0 9 floats, slice 9 18 floats, slice 18 27 floats, slice 27 36 floats]"
    using l by (simp add: getImuMatrix_def imu_matrix_36)
  have r: "imu_block (st\<lparr>imuData := floats\<rparr>) = ImuSensors (getImuMatrix (st\<lparr>imuData := floats\<rparr>))"
    using l by (simp add: imu_block_def)
  have r': "connectedDevice st \<noteq> None \<longrightarrow>
            render_imu (st\<lparr>imuData := floats\<rparr>) =
              Some (ImuSensors (getImuMatrix (st\<lparr>imuData := floats\<rparr>)))"
    using r by (cases "connectedDevice st") (simp_all add: render_imu_def)
  have s: "slice 0 9 floats = map (float_at buffer) [0 ..< 9]"
     "slice 9 18 floats = map (float_at buffer) [9 ..< 18]"
     "slice 18 27 floats = map (float_at buffer) [18 ..< 27]"
     "slice 27 36 floats = map (float_at buffer) [27 ..< 36]"
    by (simp_all add: slice_def floats_def take_map drop_map)
  have m': "getImuMatrix (st\<lparr>imuData := floats\<rparr>) =
           [map (float_at buffer) [0 ..< 9], map (float_at buffer) [9 ..< 18],
            map (float_at buffer) [18 ..< 27], map (float_at buffer) [27 ..< 36]]"
    by (simp only: m s)
  show "\<exists>floats. parse_floats buffer = Inr floats \<and> length floats = 36 \<and>
         (\<forall>k<36. floats ! k = float_at buffer k) \<and>
         imu_on_buffer buffer st = Inr (st\<lparr>imuData := floats\<rparr>) \<and>
         imu_block (st\<lparr>imuData := floats\<rparr>) = ImuSensors (getImuMatrix (st\<lparr>imuData := floats\<rparr>)) \<and>
         (connectedDevice st \<noteq> None \<longrightarrow>
            render_imu (st\<lparr>imuData := floats\<rparr>) =
              Some (ImuSensors (getImuMatrix (st\<lparr>imuData := floats\<rparr>)))) \<and>
         getImuMatrix (st\<lparr>imuData := floats\<rparr>) =
           [slice 0 9 floats, slice 9 18 floats, slice 18 27 floats, slice 27 36 floats] \<and>
         getImuMatrix (st\<lparr>imuData := floats\<rparr>) =
           [map (float_at buffer) [0 ..< 9], map (float_at buffer) [9 ..< 18],
            map (float_at buffer) [18 ..< 27], map (float_at buffer) [27 ..< 36]]"
    using p l n i r r' m m' by blast
next
  let ?b = "[0, 0, 0x80, 0x3F] @ replicate 140 (0::byte)"
  have p: "parse_floats ?b = Inr (Finite False 1 # replicate 35 js_zero)"
    using parse_floats_aligned [of ?b] float_at_example by simp
  have i: "imu_on_buffer ?b st = Inr (st\<lparr>imuData := Finite False 1 # replicate 35 js_zero\<rparr>)"
    unfolding imu_on_buffer_def p by simp
  have "getImuMatrix (st\<lparr>imuData := Finite False 1 # replicate 35 js_zero\<rparr>) =
     [Finite False 1 # replicate 8 js_zero, replicate 9 js_zero, replicate 9 js_zero,
      replicate 9 js_zero]"
    by (simp add: getImuMatrix_def imu_matrix_36 slice_def)
  then show "getImuMatrix (after st (imu_on_buffer ?b st)) =
     [Finite False 1 # replicate 8 js_zero, replicate 9 js_zero, replicate 9 js_zero,
      replicate 9 js_zero]"
    unfolding i after_def by simp
qed

theorem imu_frame_of_144_bytes_witness:
  "length (replicate 144 (0::byte)) = 144 \<and>
   parse_floats (replicate 144 0) = Inr (replicate 36 js_zero) \<and>
   getImuMatrix (ready_A\<lparr>imuData := replicate 36 js_zero\<rparr>) =
     [replicate 9 js_zero, replicate 9 js_zero, replicate 9 js_zero, replicate 9 js_zero] \<and>
   connectedDevice ready_A \<noteq> None \<and>
   render_imu (ready_A\<lparr>imuData := replicate 36 js_zero\<rparr>) =
     Some (ImuSensors
       [replicate 9 js_zero, replicate 9 js_zero, replicate 9 js_zero, replicate 9 js_zero])"
proof -
  have z: "map (float_at (replicate 144 0)) [0 ..< 36] = replicate 36 js_zero"
    by (rule nth_equalityI) (simp_all add: float_at_def f32_zero)
  have c: "connectedDevice ready_A \<noteq> None" by (simp add: ready_A_connected)
  have "length (replicate 144 (0::byte)) = 144" by simp
  with imu_frame_of_144_bytes [of "replicate 144 0" ready_A]
  obtain floats where f: "parse_floats (replicate 144 (0::byte)) = Inr floats"
    and g: "getImuMatrix (ready_A\<lparr>imuData := floats\<rparr>) =
           [slice 0 9 floats, slice 9 18 floats, slice 18 27 floats, slice 27 36 floats]"
    and h: "connectedDevice ready_A \<noteq> None \<longrightarrow>
            render_imu (ready_A\<lparr>imuData := floats\<rparr>) =
              Some (ImuSensors (getImuMatrix (ready_A\<lparr>imuData := floats\<rparr>)))"
    by blast
  have e: "floats = replicate 36 js_zero"
    using f parse_floats_aligned [of "replicate 144 (0::byte)"] z by simp
  have m: "getImuMatrix (ready_A\<lparr>imuData := replicate 36 js_zero\<rparr>) =
     [replicate 9 js_zero, replicate 9 js_zero, replicate 9 js_zero, replicate 9 js_zero]"
    using g unfolding e by (simp add: slice_def)
  have r: "render_imu (ready_A\<lparr>imuData := replicate 36 js_zero\<rparr>) =
     Some (ImuSensors
       [replicate 9 js_zero, replicate 9 js_zero, replicate 9 js_zero, replicate 9 js_zero])"
    using h c unfolding e m by simp
  from f e m c r show ?thesis by simp
qed

text \<open>
  Claim C1, as amended.  The IMU callback compares the buffer length with nothing and
  knows no length-mismatch error.  A buffer whose length is a multiple of 4 is decoded
  into length/4 floats, which overwrite the IMU slot whatever the length; a buffer whose
  length is not a multiple of 4 makes the read raise \<^verbatim>\<open>RangeError\<close>, and the IMU slot keeps
  its value.  After a decode that returned, the slot holds 36 floats exactly when the
  buffer had 144 bytes, and only then does the screen show the four IMU sensors: the IMU
  block does so exactly then, and the screen shows the block while a device is connected.
\<close>

theorem imu_decode_any_aligned_length:
  "(length buffer mod 4 = 0 \<longrightarrow>
      imu_on_buffer buffer st =
        Inr (st\<lparr>imuData := map (float_at buffer) [0 ..< length buffer div 4]\<rparr>)) \<and>
   (length buffer mod 4 \<noteq> 0 \<longrightarrow>
      imu_on_buffer buffer st = Inl RangeError \<and>
      imuData (after st (imu_on_buffer buffer st)) = imuData st) \<and>
   (\<forall>st'. imu_on_buffer buffer st = Inr st' \<longrightarrow>
      (length (imuData st') = 36 \<longleftrightarrow> length buffer = 144) \<and>
      (imu_block st' \<noteq> NoImuData \<longleftrightarrow> length buffer = 144) \<and>
      (render_imu st' = Some (ImuSensors (getImuMatrix st')) \<longrightarrow> length buffer = 144) \<and>
      (connectedDevice st \<noteq> None \<longrightarrow>
         (render_imu st' = Some (ImuSensors (getImuMatrix st')) \<longleftrightarrow> length buffer = 144)))"
proof (intro conjI impI allI)
  assume a: "length buffer mod 4 = 0"
  show "imu_on_buffer buffer st =
        Inr (st\<lparr>imuData := map (float_at buffer) [0 ..< length buffer div 4]\<rparr>)"
    by (simp add: imu_on_buffer_def parse_floats_aligned [OF a])
next
  assume a: "length buffer mod 4 \<noteq> 0"
  show e: "imu_on_buffer buffer st = Inl RangeError"
    by (simp add: imu_on_buffer_def parse_floats_unaligned [OF a])
  show "imuData (after st (imu_on_buffer buffer st)) = imuData st"
    by (simp add: e after_def)
next
  fix st' assume r: "imu_on_buffer buffer st = Inr st'"
  have a: "length buffer mod 4 = 0"
  proof (rule ccontr)
    assume "length buffer mod 4 \<noteq> 0"
    then have "imu_on_buffer buffer st = Inl RangeError"
      by (simp add: imu_on_buffer_def parse_floats_unaligned)
    with r show False by simp
  qed
  then have eq: "st' = st\<lparr>imuData := map (float_at buffer) [0 ..< length buffer div 4]\<rparr>"
    using r by (simp add: imu_on_buffer_def parse_floats_aligned)
  then have l: "length (imuData st') = length buffer div 4" by simp
  have cd: "connectedDevice st' = connectedDevice st" using eq by simp
  show len: "length (imuData st') = 36 \<longleftrightarrow> length buffer = 144"
    using a l by presburger
  then show blk: "imu_block st' \<noteq> NoImuData \<longleftrightarrow> length buffer = 144"
    by (simp add: imu_block_def)
  show "length buffer = 144" if "render_imu st' = Some (ImuSensors (getImuMatrix st'))"
    using that len
    by (simp add: render_imu_def imu_block_def split: option.splits if_splits)
  show "render_imu st' = Some (ImuSensors (getImuMatrix st')) \<longleftrightarrow> length buffer = 144"
    if "connectedDevice st \<noteq> None"
  proof -
    from that cd obtain dev where "connectedDevice st' = Some dev" by auto
    then show ?thesis using len by (simp add: render_imu_def imu_block_def)
  qed
qed

theorem imu_decode_any_aligned_length_witness:
  "imu_on_buffer [0, 0, 0x80, 0x3F] ready_A =
     Inr (ready_A\<lparr>imuData := [Finite False 1]\<rparr>) \<and>
   imu_on_buffer [0, 0, 0x80] ready_A = Inl RangeError \<and>
   imu_block (ready_A\<lparr>imuData := [Finite False 1]\<rparr>) = NoImuData \<and>
   connectedDevice ready_A \<noteq> None \<and>
   render_imu (ready_A\<lparr>imuData := [Finite False 1]\<rparr>) \<noteq>
     Some (ImuSensors (getImuMatrix (ready_A\<lparr>imuData := [Finite False 1]\<rparr>)))"
proof -
  have a: "imu_on_buffer [0, 0, 0x80, 0x3F] ready_A =
     Inr (ready_A\<lparr>imuData := [Finite False 1]\<rparr>)"
    using imu_decode_any_aligned_length [of "[0, 0, 0x80, 0x3F]" ready_A]
    by (simp add: float_at_def f32_one)
  have b: "imu_on_buffer [0, 0, 0x80] ready_A = Inl RangeError"
    using imu_decode_any_aligned_length [of "[0, 0, 0x80]" ready_A] by simp
  have c: "imu_block (ready_A\<lparr>imuData := [Finite False 1]\<rparr>) = NoImuData"
    using imu_decode_any_aligned_length [of "[0, 0, 0x80, 0x3F]" ready_A] a
    by (simp add: float_at_def f32_one)
  have d: "connectedDevice ready_A \<noteq> None" by (simp add: ready_A_connected)
  have e: "render_imu (ready_A\<lparr>imuData := [Finite False 1]\<rparr>) \<noteq>
     Some (ImuSensors (getImuMatrix (ready_A\<lparr>imuData := [Finite False 1]\<rparr>)))"
    using imu_decode_any_aligned_length [of "[0, 0, 0x80, 0x3F]" ready_A] a
    by (simp add: float_at_def f32_one)
  from a b c d e show ?thesis by simp
qed

text \<open>
  The claim as written fails at a buffer of eight zero bytes: its length is not 144, the
  callback returns without error, and the IMU slot, empty before, holds two floats.
\<close>

theorem imu_length_mismatch_counterexample:
  "length [0, 0, 0, 0, 0, 0, 0, 0 :: byte] \<noteq> 144 \<and>
   imu_on_buffer [0, 0, 0, 0, 0, 0, 0, 0] initial_state =
     Inr (initial_state\<lparr>imuData := [js_zero, js_zero]\<rparr>) \<and>
   imuData (after initial_state (imu_on_buffer [0, 0, 0, 0, 0, 0, 0, 0] initial_state)) \<noteq>
     imuData initial_state"
proof -
  have "imu_on_buffer [0, 0, 0, 0, 0, 0, 0, 0] initial_state =
     Inr (initial_state\<lparr>imuData := [js_zero, js_zero]\<rparr>)"
    using parse_floats_aligned [of "[0, 0, 0, 0, 0, 0, 0, 0]"]
    by (simp add: imu_on_buffer_def float_at_def f32_zero upt_rec)
  then show ?thesis by (simp add: after_def initial_state_def)
qed

subsection \<open>The weight channel\<close>

text \<open>
  Claim C7.  For every buffer of at least four bytes the Weight callback stores the one
  little-endian float made of bytes 0 to 3 and never raises; two buffers that agree on
  their first four bytes give the same result, so the bytes from index 4 on are ignored.
  For every shorter buffer no float is read and the state, the weight slot included, is
  returned as it was.  The callback itself drops a notification with an error or without
  payload and otherwise does the above on the decoded payload.
\<close>

theorem weight_decode_first_four_bytes:
  "(4 \<le> length buffer \<longrightarrow>
      weight_on_buffer buffer st =
        Inr (st\<lparr>weightData :=
          f32_value (word_of_bytes_le (buffer ! 0) (buffer ! 1) (buffer ! 2) (buffer ! 3))\<rparr>) \<and>
      weight_on_buffer buffer st = weight_on_buffer (take 4 buffer) st \<and>
      (\<forall>other. 4 \<le> length other \<and> take 4 other = take 4 buffer \<longrightarrow>
         weight_on_buffer other st = weight_on_buffer buffer st)) \<and>
   (length buffer < 4 \<longrightarrow>
      weight_on_buffer buffer st = Inr st \<and>
      weightData (after st (weight_on_buffer buffer st)) = weightData st) \<and>
   (payload ch = Some v \<longrightarrow>
      weight_callback from_base64 None ch st = weight_on_buffer (from_base64 v) st)"
proof -
  have val: "weight_on_buffer b st =
        Inr (st\<lparr>weightData := f32_value (word_of_bytes_le (b ! 0) (b ! 1) (b ! 2) (b ! 3))\<rparr>)"
    if "4 \<le> length b" for b
    using that by (simp add: weight_on_buffer_def readFloatLE_def numeral_2_eq_2)
  have tk: "weight_on_buffer b st = weight_on_buffer (take 4 b) st" if "4 \<le> length b" for b
    using that val [of b] val [of "take 4 b"] by simp
  have oth: "weight_on_buffer other st = weight_on_buffer buffer st"
    if "4 \<le> length buffer" "4 \<le> length other" "take 4 other = take 4 buffer" for other
    using that tk [of buffer] tk [of other] by simp
  have short: "weight_on_buffer buffer st = Inr st" if "length buffer < 4"
    using that by (simp add: weight_on_buffer_def)
  have cb: "weight_callback from_base64 None ch st = weight_on_buffer (from_base64 v) st"
    if "payload ch = Some v"
    using that by (simp add: weight_callback_def)
  show ?thesis
  proof (intro conjI impI allI)
    assume "4 \<le> length buffer"
    then show "weight_on_buffer buffer st =
        Inr (st\<lparr>weightData :=
          f32_value (word_of_bytes_le (buffer ! 0) (buffer ! 1) (buffer ! 2) (buffer ! 3))\<rparr>)"
      by (rule val)
  next
    assume "4 \<le> length buffer"
    then show "weight_on_buffer buffer st = weight_on_buffer (take 4 buffer) st" by (rule tk)
  next
    fix other
    assume "4 \<le> length buffer" "4 \<le> length other \<and> take 4 other = take 4 buffer"
    then show "weight_on_buffer other st = weight_on_buffer buffer st" using oth by blast
  next
    assume "length buffer < 4"
    then show "weight_on_buffer buffer st = Inr st" by (rule short)
  next
    assume "length buffer < 4"
    then show "weightData (after st (weight_on_buffer buffer st)) = weightData st"
      by (simp add: short after_def)
  next
    assume "payload ch = Some v"
    then show "weight_callback from_base64 None ch st = weight_on_buffer (from_base64 v) st"
      by (rule cb)
  qed
qed

theorem weight_decode_first_four_bytes_witness:
  "weight_on_buffer [0, 0, 0x80, 0x3F, 0xAA, 0xBB] initial_state =
     Inr (initial_state\<lparr>weightData := Finite False 1\<rparr>) \<and>
   weight_on_buffer [0, 0, 0x80, 0x3F] initial_state =
     weight_on_buffer [0, 0, 0x80, 0x3F, 0xAA, 0xBB] initial_state \<and>
   weight_on_buffer [0, 0, 0x80] initial_state = Inr initial_state \<and>
   weight_callback (\<lambda>v. [0, 0, 0x80, 0x3F, 0xAA, 0xBB]) None
       (Some \<lparr>char_value = Some ''AACAP6q7''\<rparr>) initial_state =
     Inr (initial_state\<lparr>weightData := Finite False 1\<rparr>)"
proof -
  have a: "weight_on_buffer [0, 0, 0x80, 0x3F, 0xAA, 0xBB] initial_state =
     Inr (initial_state\<lparr>weightData := Finite False 1\<rparr>)"
    using weight_decode_first_four_bytes [of "[0, 0, 0x80, 0x3F, 0xAA, 0xBB]" initial_state]
    by (simp add: f32_one)
  have b: "weight_on_buffer [0, 0, 0x80, 0x3F] initial_state =
     weight_on_buffer [0, 0, 0x80, 0x3F, 0xAA, 0xBB] initial_state"
    using weight_decode_first_four_bytes [of "[0, 0, 0x80, 0x3F, 0xAA, 0xBB]" initial_state]
    by simp
  have c: "weight_on_buffer [0, 0, 0x80] initial_state = Inr initial_state"
    using weight_decode_first_four_bytes [of "[0, 0, 0x80]" initial_state] by simp
  have d: "weight_callback (\<lambda>v. [0, 0, 0x80, 0x3F, 0xAA, 0xBB]) None
       (Some \<lparr>char_value = Some ''AACAP6q7''\<rparr>) initial_state =
     weight_on_buffer [0, 0, 0x80, 0x3F, 0xAA, 0xBB] initial_state"
    using weight_decode_first_four_bytes [of "[]" initial_state
        "Some \<lparr>char_value = Some ''AACAP6q7''\<rparr>" "''AACAP6q7''"
        "\<lambda>v. [0, 0, 0x80, 0x3F, 0xAA, 0xBB]"]
    by (simp add: payload_def)
  from a b c d show ?thesis by simp
qed

subsection \<open>The scanner\<close>

lemma findIndex_ge_minus_one: "- 1 \<le> findIndex p xs"
  by (induction xs) (auto simp: Let_def)

lemma findIndex_found: "0 \<le> findIndex p xs \<longleftrightarrow> (\<exists>x\<in>set xs. p x)"
  by (induction xs) (auto simp: Let_def)

lemma findIndex_missing: "findIndex p xs = - 1 \<longleftrightarrow> \<not> (\<exists>x\<in>set xs. p x)"
  using findIndex_found [of p xs] findIndex_ge_minus_one [of p xs] by auto

lemma add_device_eq:
  "add_device dev prev =
     (if device_id dev \<in> device_id ` set prev then prev else prev @ [dev])"
proof -
  have "(\<exists>x\<in>set prev. device_id x = device_id dev) \<longleftrightarrow> device_id dev \<in> device_id ` set prev"
    unfolding image_iff by metis
  then show ?thesis by (simp add: add_device_def findIndex_found)
qed

lemma add_device_BleTest_eq: "add_device_BleTest dev prev = add_device dev prev"
  by (simp add: add_device_BleTest_def add_device_def Let_def findIndex_missing findIndex_found)

lemma scan_callback_allDevices:
  "allDevices (scan_callback error dev st) =
     (case (error, dev) of
        (None, Some d) \<Rightarrow>
          if device_name d = Some DEVICE_LOCAL_NAME \<and> device_id d \<notin> device_id ` set (allDevices st)
          then allDevices st @ [d] else allDevices st
      | _ \<Rightarrow> allDevices st)"
  by (simp add: scan_callback_def add_device_eq log_call_def split: option.splits)

lemma scan_callback_inv: "scan_inv st \<Longrightarrow> scan_inv (scan_callback error dev st)"
  by (auto simp: scan_inv_def scan_callback_allDevices split: option.splits)

lemma scan_callbacks_inv: "scan_inv st \<Longrightarrow> scan_inv (scan_callbacks events st)"
  by (induction events st rule: scan_callbacks.induct) (simp_all add: scan_callback_inv)

lemma scan_start_inv: "scan_inv (scanForDevices_resume True st)"
  by (simp add: scan_inv_def scanForDevices_resume_def log_call_def)

text \<open>
  Claim C3.  A scan callback leaves the candidate list as it is or appends the reported
  device, and it appends only a device whose advertised name is present and equal to the
  filter name and whose identity is not in the list yet.  Hence, from the start of a
  scan session (permission granted, list reset) and through every sequence of scan
  callbacks, the identities in the list are pairwise distinct and every listed device
  advertises the filter name.  The updater of \<^verbatim>\<open>BleTest.tsx\<close> is the same function.
\<close>

theorem scanner_unique_and_filtered:
  "(allDevices (scan_callback error dev st) = allDevices st \<or>
    (\<exists>d. error = None \<and> dev = Some d \<and> device_name d = Some DEVICE_LOCAL_NAME \<and>
         device_id d \<notin> device_id ` set (allDevices st) \<and>
         allDevices (scan_callback error dev st) = allDevices st @ [d])) \<and>
   distinct (map device_id (allDevices (scan_callbacks events (scanForDevices_resume True st)))) \<and>
   (\<forall>d\<in>set (allDevices (scan_callbacks events (scanForDevices_resume True st))).
      device_name d = Some DEVICE_LOCAL_NAME) \<and>
   add_device_BleTest dev' prev = add_device dev' prev"
proof (intro conjI)
  show "allDevices (scan_callback error dev st) = allDevices st \<or>
    (\<exists>d. error = None \<and> dev = Some d \<and> device_name d = Some DEVICE_LOCAL_NAME \<and>
         device_id d \<notin> device_id ` set (allDevices st) \<and>
         allDevices (scan_callback error dev st) = allDevices st @ [d])"
    by (cases error; cases dev) (simp_all add: scan_callback_allDevices)
  have "scan_inv (scan_callbacks events (scanForDevices_resume True st))"
    by (rule scan_callbacks_inv) (rule scan_start_inv)
  then show "distinct (map device_id (allDevices (scan_callbacks events (scanForDevices_resume True st))))"
    and "\<forall>d\<in>set (allDevices (scan_callbacks events (scanForDevices_resume True st))).
      device_name d = Some DEVICE_LOCAL_NAME"
    by (simp_all add: scan_inv_def)
  show "add_device_BleTest dev' prev = add_device dev' prev"
    by (rule add_device_BleTest_eq)
qed

theorem scanner_unique_and_filtered_witness:
  "allDevices
     (scan_callbacks
        [(None, Some device_A),
         (None, Some \<lparr>device_id = ''CC:CC:CC:CC:CC:CC'', device_name = Some ''Other''\<rparr>),
         (None, Some device_A),
         (None, Some \<lparr>device_id = ''DD:DD:DD:DD:DD:DD'', device_name = None\<rparr>),
         (None, None),
         (Some BleError, None),
         (None, Some device_B)]
        (scanForDevices_resume True initial_state)) = [device_A, device_B] \<and>
   distinct (map device_id [device_A, device_B]) \<and>
   map device_name [device_A, device_B] = [Some DEVICE_LOCAL_NAME, Some DEVICE_LOCAL_NAME]"
proof -
  let ?events = "[(None, Some device_A),
         (None, Some \<lparr>device_id = ''CC:CC:CC:CC:CC:CC'', device_name = Some ''Other''\<rparr>),
         (None, Some device_A),
         (None, Some \<lparr>device_id = ''DD:DD:DD:DD:DD:DD'', device_name = None\<rparr>),
         (None, None),
         (Some BleError, None),
         (None, Some device_B)]"
  have e: "allDevices (scan_callbacks ?events (scanForDevices_resume True initial_state)) =
      [device_A, device_B]"
    by (simp add: scan_callback_def add_device_eq log_call_def scanForDevices_resume_def
        initial_state_def device_A_def device_B_def DEVICE_LOCAL_NAME_def)
  show ?thesis
    using scanner_unique_and_filtered [of None "Some device_A" initial_state ?events device_A "[]"]
    unfolding e by (simp add: e)
qed

subsection \<open>Permissions before the scan\<close>

text \<open>
  Claim C8.  \<^verbatim>\<open>scanForDevices\<close> stops a running scan and asks the permission collaborator
  once, before anything else; it continues only with the boolean the request resolved
  to.  When that is false, the only further call is the log of the refusal:
  \<^verbatim>\<open>startDeviceScan\<close> is not called, no timer is set, the permission request is not
  repeated, the scanning flag is cleared and the candidate list is untouched.  When it
  is true, the scan starts after the one request.
\<close>

theorem permission_once_before_scan:
  "calls (scanForDevices_begin st) = calls st @ [StopDeviceScan, RequestPermissions] \<and>
   (\<not> requestPermissions p \<longrightarrow>
      calls (scanForDevices p st) =
        calls st @ [StopDeviceScan, RequestPermissions, ConsoleLog ''BLE Permissions not granted!''] \<and>
      count_list (drop (length (calls st)) (calls (scanForDevices p st))) RequestPermissions = 1 \<and>
      StartDeviceScan \<notin> set (drop (length (calls st)) (calls (scanForDevices p st))) \<and>
      isScanning (scanForDevices p st) = False \<and>
      scanForDevices p st = st\<lparr>isScanning := False, calls := calls (scanForDevices p st)\<rparr>) \<and>
   (requestPermissions p \<longrightarrow>
      calls (scanForDevices p st) =
        calls st @ [StopDeviceScan, RequestPermissions, StartDeviceScan, SetTimeout 10000] \<and>
      count_list (drop (length (calls st)) (calls (scanForDevices p st))) RequestPermissions = 1 \<and>
      allDevices (scanForDevices p st) = [] \<and>
      isScanning (scanForDevices p st) = True)"
  by (simp add: scanForDevices_def scanForDevices_begin_def scanForDevices_resume_def log_call_def)

theorem permission_once_before_scan_witness:
  "\<not> requestPermissions
       \<lparr>platform_os = Android, platformApiLevel = Some 33,
        request = (\<lambda>x. if x = BLUETOOTH_CONNECT then DENIED else GRANTED)\<rparr> \<and>
   calls (scanForDevices
       \<lparr>platform_os = Android, platformApiLevel = Some 33,
        request = (\<lambda>x. if x = BLUETOOTH_CONNECT then DENIED else GRANTED)\<rparr> initial_state) =
     [StopDeviceScan, RequestPermissions, ConsoleLog ''BLE Permissions not granted!''] \<and>
   requestPermissions \<lparr>platform_os = OtherOS, platformApiLevel = None, request = (\<lambda>x. DENIED)\<rparr> \<and>
   calls (scanForDevices
       \<lparr>platform_os = OtherOS, platformApiLevel = None, request = (\<lambda>x. DENIED)\<rparr> initial_state) =
     [StopDeviceScan, RequestPermissions, StartDeviceScan, SetTimeout 10000]"
proof -
  let ?p = "\<lparr>platform_os = Android, platformApiLevel = Some 33,
        request = (\<lambda>x. if x = BLUETOOTH_CONNECT then DENIED else GRANTED)\<rparr>"
  let ?q = "\<lparr>platform_os = OtherOS, platformApiLevel = None, request = (\<lambda>x. DENIED)\<rparr>"
  have a: "\<not> requestPermissions ?p"
    by (simp add: requestPermissions_def requestAndroid12Permissions_def)
  have b: "requestPermissions ?q"
    by (simp add: requestPermissions_def)
  have c: "calls initial_state = []" by (simp add: initial_state_def)
  show ?thesis
    using permission_once_before_scan [of initial_state ?p]
      permission_once_before_scan [of initial_state ?q] a b c
    by simp
qed

subsection \<open>Disconnecting\<close>

lemma imu_frame_one_floats:
  "parse_floats imu_frame_one = Inr (Finite False 1 # replicate 35 js_zero)"
  using parse_floats_aligned [of imu_frame_one] float_at_example
  by (simp add: imu_frame_one_def)

lemma imu_frame_one_stored:
  "after st (imu_on_buffer imu_frame_one st) = st\<lparr>imuData := Finite False 1 # replicate 35 js_zero\<rparr>"
  by (simp add: imu_on_buffer_def imu_frame_one_floats after_def)

lemmas handler_defs = disconnectDevice_def disconnectDevice_with_def connectToDevice_begin_def
  connectToDevice_connected_def connectToDevice_discovered_def connectToDevice_catch_def
  startNotifications_def readDeviceID_begin_def log_call_def

text \<open>
  Claim C4, as amended.  The disconnect handler has no exit by exception: the promise of
  the cancel request gets a catch handler, which logs and changes no state cell.  An
  invocation that finds a connected device requests the cancel, clears the
  connected-device reference and resets all four slots; an invocation that finds none
  returns the state as it is, so the store is empty afterwards only if it was before.
  Invoking the handler twice in a row gives the state of invoking it once; when the
  second invocation is the effect cleanup, which still holds the device it captured, the
  cancel is requested a second time and nothing else changes.  After an invocation from
  the current render the connected-device reference is cleared in every case.  The
  handler of \<^verbatim>\<open>BleTest.tsx\<close> has the same guard and resets the two arrays of that screen.
\<close>

theorem disconnect_idempotent_reset_if_connected:
  "disconnectDevice (disconnectDevice st) = disconnectDevice st \<and>
   connectedDevice (disconnectDevice st) = None \<and>
   (connectedDevice st \<noteq> None \<longrightarrow> store_empty (disconnectDevice st)) \<and>
   (connectedDevice st = None \<longrightarrow> disconnectDevice st = st) \<and>
   store_empty (disconnectDevice_with (Some d) st) \<and>
   connectedDevice (disconnectDevice_with (Some d) st) = None \<and>
   disconnectDevice_with (Some d) (disconnectDevice_with (Some d) st) =
     log_call (CancelDeviceConnection (device_id d)) (disconnectDevice_with (Some d) st) \<and>
   disconnectDevice_with None st = st \<and>
   disconnectDevice_catch st = st\<lparr>calls := calls st @ [ConsoleLog ''Disconnection error:'']\<rparr> \<and>
   disconnectDevice_BleTest_with None st = st \<and>
   disconnectDevice_BleTest_with (Some d) st =
     st\<lparr>connectedDevice := None, imuData := [], laserData := [],
        calls := calls st @ [CancelDeviceConnection (device_id d)]\<rparr>"
  by (cases "connectedDevice st")
    (simp_all add: disconnectDevice_def disconnectDevice_with_def disconnectDevice_catch_def
      disconnectDevice_BleTest_with_def log_call_def store_empty_def)

theorem disconnect_idempotent_reset_if_connected_witness:
  "connectedDevice ready_A \<noteq> None \<and> store_empty (disconnectDevice ready_A) \<and>
   connectedDevice (disconnectDevice ready_A) = None \<and>
   disconnectDevice (disconnectDevice ready_A) = disconnectDevice ready_A \<and>
   connectedDevice initial_state = None \<and> disconnectDevice initial_state = initial_state"
proof -
  have a: "connectedDevice ready_A \<noteq> None"
    by (simp add: ready_A_def handler_defs)
  have b: "connectedDevice initial_state = None"
    by (simp add: initial_state_def)
  show ?thesis
    using disconnect_idempotent_reset_if_connected [of ready_A device_A]
      disconnect_idempotent_reset_if_connected [of initial_state device_A] a b
    by simp
qed

text \<open>
  The claim as written fails on the run in which an IMU notification is delivered after
  the disconnect: no device is connected then, a further disconnect does nothing, and
  the IMU slot still holds the 36 floats of the frame.
\<close>

theorem disconnect_leaves_store_counterexample:
  "connectedDevice late_notification = None \<and>
   disconnectDevice late_notification = late_notification \<and>
   imuData (disconnectDevice late_notification) = Finite False 1 # replicate 35 js_zero \<and>
   \<not> store_empty (disconnectDevice late_notification)"
proof -
  have c: "connectedDevice late_notification = None"
    by (simp add: late_notification_def imu_frame_one_stored ready_A_def handler_defs)
  have i: "imuData late_notification = Finite False 1 # replicate 35 js_zero"
    by (simp add: late_notification_def imu_frame_one_stored)
  have d: "disconnectDevice late_notification = late_notification"
    using c by (simp add: disconnectDevice_def disconnectDevice_with_def)
  show ?thesis using c i d by (simp add: store_empty_def)
qed

subsection \<open>Connecting\<close>

text \<open>
  Claim C5, as amended.  The continuation of a transport connect tests nothing: it sets
  the connected-device reference to the device the connect resolved to and starts
  discovery, in every state, also in the state a disconnect has just left.  The
  continuation of discovery then registers the three monitors and issues the identity
  read, and a notification that arrives overwrites its slot.  No attempt counter, token
  or flag exists by which a completion could be recognised as stale.
\<close>

theorem connect_completion_not_guarded:
  "connectedDevice (connectToDevice_connected dev st) = Some dev \<and>
   connectedDevice (connectToDevice_connected dev (disconnectDevice st)) = Some dev \<and>
   calls (connectToDevice_connected dev st) =
     calls st @ [DiscoverAllServicesAndCharacteristics (device_id dev)] \<and>
   connectedDevice
     (connectToDevice_discovered dev found (connectToDevice_connected dev (disconnectDevice st))) =
     Some dev \<and>
   Monitor (device_id dev) SENSOR_SERVICE_UUID IMU_CHARACTERISTIC_UUID \<in>
     set (calls (connectToDevice_discovered dev found
                   (connectToDevice_connected dev (disconnectDevice st)))) \<and>
   imuData (after st' (imu_on_buffer imu_frame_one st')) = Finite False 1 # replicate 35 js_zero"
  by (simp add: imu_frame_one_stored handler_defs)

theorem connect_completion_not_guarded_witness:
  "connectedDevice (disconnectDevice ready_A) = None \<and>
   connectedDevice (connectToDevice_connected device_B (disconnectDevice ready_A)) = Some device_B \<and>
   Monitor (device_id device_B) SENSOR_SERVICE_UUID IMU_CHARACTERISTIC_UUID \<in>
     set (calls (connectToDevice_discovered device_B full_gatt
                   (connectToDevice_connected device_B (disconnectDevice ready_A))))"
  using connect_completion_not_guarded [of device_B ready_A full_gatt initial_state]
  by (simp add: disconnectDevice_def disconnectDevice_with_def log_call_def split: option.splits)

text \<open>
  The claim as written fails on the run in which device B's connect completes after the
  disconnect from device A: the store was empty and no device connected, and the stale
  completion makes B the connected device, its monitors are registered, and the next IMU
  frame fills the IMU slot.
\<close>

theorem stale_completion_counterexample:
  "connectedDevice disconnected_with_B_pending = None \<and>
   store_empty disconnected_with_B_pending \<and>
   connectedDevice stale_completion = Some device_B \<and>
   connectedDevice after_stale_completion = Some device_B \<and>
   Monitor (device_id device_B) SENSOR_SERVICE_UUID IMU_CHARACTERISTIC_UUID \<in>
     set (calls after_stale_completion) \<and>
   \<not> store_empty after_stale_completion"
  by (simp add: disconnected_with_B_pending_def stale_completion_def after_stale_completion_def
      imu_frame_one_stored handler_defs store_empty_def)

text \<open>
  Claim C6, as amended.  The connected-device reference is set when the transport
  connect succeeds, before discovery.  When discovery resolves, the continuation does
  not look at what was found: for every discovery result it stops the scan, registers
  the IMU, Laser and Weight monitors, issues the identity read and leaves the
  connected-device reference set.  A characteristic that is missing shows only later, as
  the error argument of that channel's callback, which logs it and changes no state
  cell.  When discovery rejects, the catch handler logs the error and registers no
  monitor.
\<close>

theorem discovery_result_ignored:
  "connectToDevice_discovered dev found st = connectToDevice_discovered dev [] st \<and>
   connectedDevice (connectToDevice_discovered dev found (connectToDevice_connected dev st)) =
     Some dev \<and>
   calls (connectToDevice_discovered dev found st) =
     calls st @
       [StopDeviceScan,
        Monitor (device_id dev) SENSOR_SERVICE_UUID IMU_CHARACTERISTIC_UUID,
        Monitor (device_id dev) SENSOR_SERVICE_UUID LASER_CHARACTERISTIC_UUID,
        Monitor (device_id dev) SENSOR_SERVICE_UUID WEIGHT_CHARACTERISTIC_UUID,
        ReadCharacteristic (device_id dev) SENSOR_SERVICE_UUID DEVICE_ID_CHARACTERISTIC_UUID] \<and>
   imu_callback from_base64 (Some e) ch st =
     Inr (st\<lparr>calls := calls st @ [ConsoleLog ''IMU Notify Error:'']\<rparr>) \<and>
   laser_callback from_base64 (Some e) ch st =
     Inr (st\<lparr>calls := calls st @ [ConsoleLog ''Laser Notify Error:'']\<rparr>) \<and>
   weight_callback from_base64 (Some e) ch st =
     Inr (st\<lparr>calls := calls st @ [ConsoleLog ''Weight Notify Error:'']\<rparr>) \<and>
   connectToDevice_catch st = st\<lparr>calls := calls st @ [ConsoleLog ''Connection error:'']\<rparr>"
  by (simp add: handler_defs imu_callback_def laser_callback_def weight_callback_def)

theorem discovery_result_ignored_witness:
  "connectToDevice_discovered device_A full_gatt initial_state =
     connectToDevice_discovered device_A [] initial_state \<and>
   connectedDevice
     (connectToDevice_discovered device_A full_gatt (connectToDevice_connected device_A initial_state)) =
     Some device_A \<and>
   imu_callback (\<lambda>v. []) (Some BleError) None initial_state =
     Inr (initial_state\<lparr>calls := [ConsoleLog ''IMU Notify Error:'']\<rparr>)"
  using discovery_result_ignored [of device_A full_gatt initial_state "\<lambda>v. []" BleError None]
  by (simp add: initial_state_def)

text \<open>
  The claim as written fails on the run in which discovery finds nothing of the sensor
  service: device A stays the connected device and the three monitors are registered.
\<close>

theorem missing_characteristics_counterexample:
  "(SENSOR_SERVICE_UUID, IMU_CHARACTERISTIC_UUID) \<notin> set [] \<and>
   connectedDevice discovered_nothing = Some device_A \<and>
   calls discovered_nothing =
     [ConnectToDevice (device_id device_A),
      DiscoverAllServicesAndCharacteristics (device_id device_A),
      StopDeviceScan,
      Monitor (device_id device_A) SENSOR_SERVICE_UUID IMU_CHARACTERISTIC_UUID,
      Monitor (device_id device_A) SENSOR_SERVICE_UUID LASER_CHARACTERISTIC_UUID,
      Monitor (device_id device_A) SENSOR_SERVICE_UUID WEIGHT_CHARACTERISTIC_UUID,
      ReadCharacteristic (device_id device_A) SENSOR_SERVICE_UUID DEVICE_ID_CHARACTERISTIC_UUID]"
  by (simp add: discovered_nothing_def handler_defs initial_state_def)

subsection \<open>Sentinels\<close>

text \<open>
  Claim C10, as amended.  The weight slot is a number and the identity slot a string;
  neither has a separate empty value.  Before anything is received the weight is 0 and
  the identity is the string N/A, and the weight block shows the weight as not received
  exactly when it is not different from 0.  So a weight frame that decodes to zero
  leaves the screen as if the slot still held its initial value, and the frame of four
  zero bytes leaves the initial state exactly as it was.  A disconnect that finds a
  connected device writes 0 and N/A back; a disconnect that finds none leaves both
  slots as they are.
\<close>

theorem weight_zero_and_identity_sentinels:
  "weightData initial_state = js_zero \<and> deviceID initial_state = ''N/A'' \<and>
   weight_block initial_state = NoWeightData \<and>
   (weight_block st = NoWeightData \<longleftrightarrow> \<not> strict_neq (weightData st) js_zero) \<and>
   (connectedDevice st \<noteq> None \<longrightarrow>
      (render_weight st = Some NoWeightData \<longleftrightarrow> \<not> strict_neq (weightData st) js_zero)) \<and>
   (weight_on_buffer buffer st = Inr st' \<and> weightData st' = Finite s 0 \<longrightarrow>
      weight_block st' = weight_block initial_state \<and>
      render_weight st' = render_weight (st'\<lparr>weightData := weightData initial_state\<rparr>)) \<and>
   weight_on_buffer [0, 0, 0, 0] initial_state = Inr initial_state \<and>
   weightData (disconnectDevice_with (Some d) st) = js_zero \<and>
   deviceID (disconnectDevice_with (Some d) st) = ''N/A'' \<and>
   (connectedDevice st \<noteq> None \<longrightarrow>
      weightData (disconnectDevice st) = weightData initial_state \<and>
      deviceID (disconnectDevice st) = deviceID initial_state) \<and>
   (connectedDevice st = None \<longrightarrow>
      weightData (disconnectDevice st) = weightData st \<and>
      deviceID (disconnectDevice st) = deviceID st) \<and>
   disconnectDevice_with None st = st"
proof -
  have w: "weight_on_buffer [0, 0, 0, 0] initial_state = Inr initial_state"
    by (simp add: weight_on_buffer_def readFloatLE_def f32_zero initial_state_def)
  have i: "weightData initial_state = js_zero \<and> deviceID initial_state = ''N/A'' \<and>
      weight_block initial_state = NoWeightData"
    by (simp add: initial_state_def weight_block_def js_zero_def)
  have r: "weight_block st = NoWeightData \<longleftrightarrow> \<not> strict_neq (weightData st) js_zero"
    by (simp add: weight_block_def)
  have r': "connectedDevice st \<noteq> None \<longrightarrow>
      (render_weight st = Some NoWeightData \<longleftrightarrow> \<not> strict_neq (weightData st) js_zero)"
    by (cases "connectedDevice st") (simp_all add: render_weight_def weight_block_def)
  have z: "weight_on_buffer buffer st = Inr st' \<and> weightData st' = Finite s 0 \<longrightarrow>
      weight_block st' = weight_block initial_state \<and>
      render_weight st' = render_weight (st'\<lparr>weightData := weightData initial_state\<rparr>)"
    using i by (cases "connectedDevice st'")
      (simp_all add: render_weight_def weight_block_def js_zero_def)
  have c: "weightData (disconnectDevice_with (Some d) st) = js_zero \<and>
      deviceID (disconnectDevice_with (Some d) st) = ''N/A''"
    by (simp add: disconnectDevice_with_def log_call_def)
  have g: "connectedDevice st \<noteq> None \<longrightarrow>
      weightData (disconnectDevice st) = weightData initial_state \<and>
      deviceID (disconnectDevice st) = deviceID initial_state"
    using i by (cases "connectedDevice st")
      (simp_all add: disconnectDevice_def disconnectDevice_with_def log_call_def)
  have n: "connectedDevice st = None \<longrightarrow>
      weightData (disconnectDevice st) = weightData st \<and>
      deviceID (disconnectDevice st) = deviceID st"
    by (simp add: disconnectDevice_def disconnectDevice_with_def)
  have n': "disconnectDevice_with None st = st"
    by (simp add: disconnectDevice_with_def)
  from i r r' z w c g n n' show ?thesis by blast
qed

theorem weight_zero_and_identity_sentinels_witness:
  "weight_on_buffer [0, 0, 0, 0x80] ready_A = Inr (ready_A\<lparr>weightData := Finite True 0\<rparr>) \<and>
   weight_block (ready_A\<lparr>weightData := Finite True 0\<rparr>) = NoWeightData \<and>
   connectedDevice ready_A \<noteq> None \<and>
   render_weight (ready_A\<lparr>weightData := js_zero\<rparr>) = Some NoWeightData \<and>
   weightData (disconnectDevice ready_A) = js_zero \<and>
   deviceID (disconnectDevice ready_A) = ''N/A'' \<and>
   connectedDevice initial_state = None \<and>
   weightData (disconnectDevice initial_state) = js_zero \<and>
   deviceID (disconnectDevice initial_state) = ''N/A''"
proof -
  have m: "f32_value (word_of_bytes_le 0 0 0 0x80) = Finite True 0"
    by (simp add: f32_defs)
  have a: "weight_on_buffer [0, 0, 0, 0x80] ready_A = Inr (ready_A\<lparr>weightData := Finite True 0\<rparr>)"
    by (simp add: weight_on_buffer_def readFloatLE_def m)
  have c: "connectedDevice ready_A \<noteq> None"
    by (simp add: ready_A_connected)
  have c': "connectedDevice (ready_A\<lparr>weightData := js_zero\<rparr>) \<noteq> None"
    by (simp add: ready_A_connected)
  have i: "weightData initial_state = js_zero" "deviceID initial_state = ''N/A''"
    "connectedDevice initial_state = None"
    by (simp_all add: initial_state_def)
  have z: "\<not> strict_neq js_zero js_zero" by (simp add: js_zero_def)
  show ?thesis
    using weight_zero_and_identity_sentinels
      [of ready_A "[0, 0, 0, 0x80]" "ready_A\<lparr>weightData := Finite True 0\<rparr>" True device_A]
      weight_zero_and_identity_sentinels
      [of "ready_A\<lparr>weightData := js_zero\<rparr>" "[]" initial_state False device_A]
      weight_zero_and_identity_sentinels
      [of initial_state "[]" initial_state False device_A] a c c' i z
    by simp
qed

text \<open>
  The claim as written fails on the run in which a weight notification is delivered
  after the disconnect: no device is connected then, a further disconnect does nothing,
  and the weight slot holds 1.0, not the sentinel.
\<close>

theorem disconnect_keeps_late_weight_counterexample:
  "connectedDevice late_weight = None \<and>
   weightData (disconnectDevice late_weight) = Finite False 1 \<and>
   weightData (disconnectDevice late_weight) \<noteq> js_zero"
proof -
  have d: "connectedDevice (disconnectDevice ready_A) = None"
    by (simp add: disconnectDevice_def disconnectDevice_with_def log_call_def
        split: option.splits)
  have w: "weight_on_buffer [0, 0, 0x80, 0x3F] (disconnectDevice ready_A) =
      Inr ((disconnectDevice ready_A)\<lparr>weightData := Finite False 1\<rparr>)"
    by (simp add: weight_on_buffer_def readFloatLE_def f32_one)
  have l: "late_weight = (disconnectDevice ready_A)\<lparr>weightData := Finite False 1\<rparr>"
    by (simp add: late_weight_def w after_def)
  have c: "connectedDevice late_weight = None" by (simp add: l d)
  have k: "disconnectDevice late_weight = late_weight"
    using c by (simp add: disconnectDevice_def disconnectDevice_with_def)
  show ?thesis using c k by (simp add: l js_zero_def)
qed

end
